theory Spec2Isabelle
  imports Complex_Main "HOL-Library.Sublist"
begin

section \<open>Python values\<close>

text \<open>
  The pipeline works on the objects that \<open>json.loads\<close> produces: \<open>None\<close>, booleans,
  numbers, strings, lists and dictionaries with string keys. A dictionary is kept as an
  association list, because Python dictionaries iterate in insertion order and
  \<open>_record_to_plain_text\<close> depends on that order.

  Strings are modelled over the ASCII range: \<open>str.lower\<close> maps \<open>A\<close>..\<open>Z\<close>, and the
  separators of \<open>str.split()\<close> and \<open>str.strip()\<close> are the ASCII characters for which
  \<open>str.isspace\<close> holds (codes 9 to 13, 28 to 31 and 32).
\<close>

datatype pyval =
    PNone
  | PBool bool
  | PInt int
  | PFloat real
  | PStr string
  | PList "pyval list"
  | PDict "(string \<times> pyval) list"

type_synonym pydict = "(string \<times> pyval) list"

datatype pyerror =
    AttributeError
  | KeyError
  | TypeError
  | ValueError
  | OverflowError
  | ServiceError string

text \<open>Truth value testing, as used by \<open>or\<close>, \<open>not\<close> and \<open>if\<close>.\<close>

fun truthy :: "pyval \<Rightarrow> bool" where
  "truthy PNone = False"
| "truthy (PBool b) = b"
| "truthy (PInt i) = (i \<noteq> 0)"
| "truthy (PFloat r) = (r \<noteq> 0)"
| "truthy (PStr s) = (s \<noteq> [])"
| "truthy (PList vs) = (vs \<noteq> [])"
| "truthy (PDict kvs) = (kvs \<noteq> [])"

text \<open>\<open>a or b\<close>: the first operand when it is true, the second otherwise.\<close>

definition py_or :: "pyval \<Rightarrow> pyval \<Rightarrow> pyval" where
  "py_or a b = (if truthy a then a else b)"

text \<open>\<open>d.get(k)\<close> and \<open>d.get(k, default)\<close>.\<close>

definition dict_get_default :: "pydict \<Rightarrow> string \<Rightarrow> pyval \<Rightarrow> pyval" where
  "dict_get_default d k dflt = (case map_of d k of None \<Rightarrow> dflt | Some v \<Rightarrow> v)"

definition dict_get :: "pydict \<Rightarrow> string \<Rightarrow> pyval" where
  "dict_get d k = dict_get_default d k PNone"

text \<open>\<open>d[k] = v\<close>: an existing key keeps its position, a new key goes to the end.\<close>

fun dict_set :: "pydict \<Rightarrow> string \<Rightarrow> pyval \<Rightarrow> pydict" where
  "dict_set [] k v = [(k, v)]"
| "dict_set ((k', v') # d) k v = (if k' = k then (k, v) # d else (k', v') # dict_set d k v)"

text \<open>\<open>d.values()\<close>, in iteration order.\<close>

definition dict_values :: "pydict \<Rightarrow> pyval list" where
  "dict_values d = map snd d"

subsection \<open>String methods\<close>

definition is_space :: "char \<Rightarrow> bool" where
  "is_space c = (let n = (of_char c :: nat) in (9 \<le> n \<and> n \<le> 13) \<or> (28 \<le> n \<and> n \<le> 32))"

definition lower_char :: "char \<Rightarrow> char" where
  "lower_char c =
     (let n = (of_char c :: nat) in if 65 \<le> n \<and> n \<le> 90 then char_of (n + 32) else c)"

definition py_lower :: "string \<Rightarrow> string" where
  "py_lower s = map lower_char s"

text \<open>\<open>s.replace(a, b)\<close> for single characters \<open>a\<close> and \<open>b\<close>.\<close>

definition py_replace :: "char \<Rightarrow> char \<Rightarrow> string \<Rightarrow> string" where
  "py_replace a b s = map (\<lambda>c. if c = a then b else c) s"

text \<open>\<open>s.split()\<close>: the maximal runs of non-whitespace characters, in order.\<close>

fun split_ws :: "string \<Rightarrow> string \<Rightarrow> string list" where
  "split_ws cur [] = (if cur = [] then [] else [cur])"
| "split_ws cur (c # cs) =
     (if is_space c then (if cur = [] then split_ws [] cs else cur # split_ws [] cs)
      else split_ws (cur @ [c]) cs)"

definition py_split :: "string \<Rightarrow> string list" where
  "py_split s = split_ws [] s"

definition py_strip :: "string \<Rightarrow> string" where
  "py_strip s = rev (dropWhile is_space (rev (dropWhile is_space s)))"

section \<open>Context selector\<close>

text \<open>The inner function \<open>tokenize\<close> of \<open>_select_context_mems\<close> (pipeline.py, lines 34 to 43).\<close>

fun tokenize :: "pyval \<Rightarrow> string list" where
  "tokenize (PList vs) = concat (map tokenize vs)"
| "tokenize (PStr s) =
     filter (\<lambda>w. length w \<ge> 3)
       (py_split (py_replace (CHR ''.'') (CHR '' '') (py_replace (CHR '','') (CHR '' '') (py_lower s))))"
| "tokenize _ = []"

text \<open>Lines 45 to 47: the set of tokens of the four textual fields of the record.\<close>

definition record_tokens :: "pydict \<Rightarrow> string set" where
  "record_tokens record =
     set (concat (map (\<lambda>key. tokenize (dict_get record key))
            [''transcription'', ''description'', ''text'', ''summary'']))"

text \<open>Line 51: \<open>mem.get("memory") or mem.get("text") or ""\<close>.\<close>

definition mem_text :: "pydict \<Rightarrow> pyval" where
  "mem_text mem = py_or (py_or (dict_get mem ''memory'') (dict_get mem ''text'')) (PStr [])"

text \<open>Lines 52 and 53: the size of the intersection of the two token sets.\<close>

definition overlap_score :: "string set \<Rightarrow> pyval \<Rightarrow> nat" where
  "overlap_score rtoks text = card (rtoks \<inter> set (tokenize text))"

text \<open>Lines 49 to 55: the loop that appends the pairs of positive score to \<open>scored\<close>.\<close>

fun score_loop :: "string set \<Rightarrow> pydict list \<Rightarrow> (nat \<times> pyval) list \<Rightarrow> (nat \<times> pyval) list" where
  "score_loop rtoks [] scored = scored"
| "score_loop rtoks (mem # mems) scored =
     (let text = mem_text mem;
          score = overlap_score rtoks text
      in score_loop rtoks mems (if score > 0 then scored @ [(score, text)] else scored))"

text \<open>
  \<open>list.sort(key=..., reverse=True)\<close>: a stable sort in descending order of the key.
  CPython reverses the list, sorts it stably in ascending order, and reverses it again.
\<close>

definition py_sort_reverse :: "('a \<Rightarrow> nat) \<Rightarrow> 'a list \<Rightarrow> 'a list" where
  "py_sort_reverse key xs = rev (sort_key key (rev xs))"

text \<open>\<open>xs[:n]\<close>: a negative bound counts from the end of the list.\<close>

definition py_slice_to :: "'a list \<Rightarrow> int \<Rightarrow> 'a list" where
  "py_slice_to xs n = (if 0 \<le> n then take (nat n) xs else take (nat (int (length xs) + n)) xs)"

definition select_context_mems :: "pydict \<Rightarrow> pydict list \<Rightarrow> int \<Rightarrow> pyval list" where
  "select_context_mems record memories max_items =
     (let rtoks = record_tokens record;
          scored = score_loop rtoks memories [];
          scored = py_sort_reverse fst scored
      in map snd (py_slice_to scored max_items))"

text \<open>
  The memory texts of positive score, in the order of the memory list: the second
  components of \<open>scored\<close> before it is sorted.
\<close>

definition positive_texts :: "string set \<Rightarrow> pydict list \<Rightarrow> pyval list" where
  "positive_texts rtoks mems = filter (\<lambda>t. overlap_score rtoks t > 0) (map mem_text mems)"

section \<open>Raw-text extraction\<close>

text \<open>\<open>isinstance(cand, str) and cand.strip()\<close> (pipeline.py, lines 72 and 75).\<close>

fun is_text :: "pyval \<Rightarrow> bool" where
  "is_text (PStr s) = (py_strip s \<noteq> [])"
| "is_text _ = False"

text \<open>
  The two \<open>for\<close> loops of \<open>_record_to_plain_text\<close> (lines 71 to 76) have the same body:
  return the stripped value of the first element that passes the test, or fall
  through (\<open>None\<close>) when no element does.
\<close>

fun first_text :: "pyval list \<Rightarrow> string option" where
  "first_text [] = None"
| "first_text (PStr s # cands) = (if py_strip s \<noteq> [] then Some (py_strip s) else first_text cands)"
| "first_text (_ # cands) = first_text cands"

definition priority_fields :: "string list" where
  "priority_fields = [''transcription'', ''description'', ''text'', ''summary'']"

text \<open>
  \<open>json.dumps\<close> belongs to the Python library and is a parameter of the model; the value
  \<open>Inl e\<close> stands for a call that raises \<open>e\<close>.
\<close>

type_synonym json_dumps = "pyval \<Rightarrow> pyerror + string"

definition record_to_plain_text :: "json_dumps \<Rightarrow> pydict \<Rightarrow> string" where
  "record_to_plain_text dumps record =
     (let candidates = [dict_get record ''transcription'', dict_get record ''description'',
                        dict_get record ''text'', dict_get record ''summary'']
      in case first_text candidates of
           Some s \<Rightarrow> s
         | None \<Rightarrow>
            (case first_text (dict_values record) of
               Some s \<Rightarrow> s
             | None \<Rightarrow> (case dumps (PDict record) of Inr s \<Rightarrow> s | Inl _ \<Rightarrow> [])))"

text \<open>
  The extraction as the specification words it, for comparison: "the first that is a
  non-empty string", returned as it is.
\<close>

fun first_nonempty_string :: "pyval list \<Rightarrow> string option" where
  "first_nonempty_string [] = None"
| "first_nonempty_string (PStr s # cands) = (if s \<noteq> [] then Some s else first_nonempty_string cands)"
| "first_nonempty_string (_ # cands) = first_nonempty_string cands"

definition plain_text_spec :: "json_dumps \<Rightarrow> pydict \<Rightarrow> string" where
  "plain_text_spec dumps record =
     (case first_nonempty_string (map (dict_get record) priority_fields) of
        Some s \<Rightarrow> s
      | None \<Rightarrow>
         (case first_nonempty_string (dict_values record) of
            Some s \<Rightarrow> s
          | None \<Rightarrow> (case dumps (PDict record) of Inr s \<Rightarrow> s | Inl _ \<Rightarrow> [])))"

text \<open>A serializer that always raises, for closed examples that never reach it.\<close>

definition dumps_raises :: json_dumps where
  "dumps_raises v = Inl TypeError"

text \<open>Closed inputs for the examples below.\<close>

definition milk_record :: pydict where
  "milk_record = [(''text'', PStr ''buy milk today'')]"

definition milk_memories :: "pydict list" where
  "milk_memories =
     [[(''memory'', PStr ''Milk is good.'')],
      [(''text'', PStr ''buy milk'')],
      [(''memory'', PStr ''nothing today'')],
      [(''memory'', PStr ''today: buy, milk'')],
      [(''memory'', PInt 3)]]"

definition blank_record :: pydict where
  "blank_record = [(''summary'', PNone), (''location'', PStr ''buy milk'')]"

section \<open>Calendar time normalisation\<close>

text \<open>
  \<open>_to_utc\<close> (calendar.py, lines 9 to 19) calls three functions of Python's
  \<open>datetime\<close> module. The parser \<open>datetime.fromisoformat\<close> is a parameter of the
  model. The arithmetic of \<open>astimezone(timezone.utc)\<close> and the output format of
  \<open>isoformat()\<close> are written out below after the module's Python implementation.
\<close>

record datetime =
  dt_year :: int
  dt_month :: int
  dt_day :: int
  dt_hour :: int
  dt_minute :: int
  dt_second :: int
  dt_microsecond :: int
  dt_utcoffset :: "int option"  \<comment> \<open>\<open>tzinfo\<close>: seconds east of UTC, \<open>None\<close> for a naive value\<close>

type_synonym fromisoformat = "string \<Rightarrow> pyerror + datetime"

definition is_leap :: "int \<Rightarrow> bool" where
  "is_leap y = (y mod 4 = 0 \<and> (y mod 100 \<noteq> 0 \<or> y mod 400 = 0))"

definition days_before_year :: "int \<Rightarrow> int" where
  "days_before_year year = (let y = year - 1 in y * 365 + y div 4 - y div 100 + y div 400)"

definition DAYS_IN_MONTH :: "int list" where
  "DAYS_IN_MONTH = [-1, 31, 28, 31, 30, 31, 30, 31, 31, 30, 31, 30, 31]"

definition DAYS_BEFORE_MONTH :: "int list" where
  "DAYS_BEFORE_MONTH = [-1, 0, 31, 59, 90, 120, 151, 181, 212, 243, 273, 304, 334]"

definition days_in_month :: "int \<Rightarrow> int \<Rightarrow> int" where
  "days_in_month year month =
     (if month = 2 \<and> is_leap year then 29 else DAYS_IN_MONTH ! nat month)"

definition days_before_month :: "int \<Rightarrow> int \<Rightarrow> int" where
  "days_before_month year month =
     DAYS_BEFORE_MONTH ! nat month + (if month > 2 \<and> is_leap year then 1 else 0)"

definition ymd2ord :: "int \<Rightarrow> int \<Rightarrow> int \<Rightarrow> int" where
  "ymd2ord year month day = days_before_year year + days_before_month year month + day"

definition ord2ymd :: "int \<Rightarrow> int \<times> int \<times> int" where
  "ord2ymd n0 =
     (let n = n0 - 1;
          n400 = n div 146097; n = n mod 146097;
          year = n400 * 400 + 1;
          n100 = n div 36524; n = n mod 36524;
          n4 = n div 1461; n = n mod 1461;
          n1 = n div 365; n = n mod 365;
          year = year + n100 * 100 + n4 * 4 + n1
      in if n1 = 4 \<or> n100 = 4 then (year - 1, 12, 31)
         else
           let leapyear = (n1 = 3 \<and> (n4 \<noteq> 24 \<or> n100 = 3));
               month = (n + 50) div 32;
               preceding = DAYS_BEFORE_MONTH ! nat month + (if month > 2 \<and> leapyear then 1 else 0)
           in if preceding > n
              then let month = month - 1;
                       preceding = preceding
                         - (DAYS_IN_MONTH ! nat month + (if month = 2 \<and> leapyear then 1 else 0))
                   in (year, month, n - preceding + 1)
              else (year, month, n - preceding + 1))"

text \<open>
  \<open>dt.astimezone(timezone.utc)\<close> for an aware value with a fixed offset: the offset is
  subtracted, and a result before year 1 or after year 9999 raises \<open>OverflowError\<close>.
  On a naive value Python takes the offset from the local time zone of the process;
  \<open>_to_utc\<close> never makes that call, and the model answers \<open>TypeError\<close> there.
\<close>

definition astimezone_utc :: "datetime \<Rightarrow> pyerror + datetime" where
  "astimezone_utc dt =
     (case dt_utcoffset dt of
        None \<Rightarrow> Inl TypeError
      | Some off \<Rightarrow>
          let total = ymd2ord (dt_year dt) (dt_month dt) (dt_day dt) * 86400
                        + dt_hour dt * 3600 + dt_minute dt * 60 + dt_second dt - off;
              days = total div 86400;
              secs = total mod 86400
          in if 0 < days \<and> days \<le> 3652059
             then (case ord2ymd days of (y, m, d) \<Rightarrow>
                     Inr \<lparr>dt_year = y, dt_month = m, dt_day = d,
                          dt_hour = secs div 3600, dt_minute = secs mod 3600 div 60,
                          dt_second = secs mod 60, dt_microsecond = dt_microsecond dt,
                          dt_utcoffset = Some 0\<rparr>)
             else Inl OverflowError)"

text \<open>Decimal digits of a natural number, and zero padding to a width (\<open>"%04d"\<close>).\<close>

definition digit_char :: "nat \<Rightarrow> char" where
  "digit_char d = char_of (48 + d)"

fun digits_of :: "nat \<Rightarrow> nat \<Rightarrow> string" where
  "digits_of 0 n = []"
| "digits_of (Suc fuel) n =
     (if n < 10 then [digit_char n] else digits_of fuel (n div 10) @ [digit_char (n mod 10)])"

definition string_of_nat :: "nat \<Rightarrow> string" where
  "string_of_nat n = digits_of (Suc n) n"

definition zero_pad :: "nat \<Rightarrow> int \<Rightarrow> string" where
  "zero_pad width n =
     (let ds = string_of_nat (nat n) in replicate (width - length ds) (CHR ''0'') @ ds)"

text \<open>
  \<open>isoformat()\<close> of a value whose offset is UTC, the only values \<open>_to_utc\<close> formats:
  \<open>YYYY-MM-DDTHH:MM:SS\<close>, the microseconds when they are not zero, and \<open>+00:00\<close>.
\<close>

definition isoformat_utc :: "datetime \<Rightarrow> string" where
  "isoformat_utc dt =
     zero_pad 4 (dt_year dt) @ ''-'' @ zero_pad 2 (dt_month dt) @ ''-'' @ zero_pad 2 (dt_day dt)
       @ ''T'' @ zero_pad 2 (dt_hour dt) @ '':'' @ zero_pad 2 (dt_minute dt)
       @ '':'' @ zero_pad 2 (dt_second dt)
       @ (if dt_microsecond dt \<noteq> 0 then ''.'' @ zero_pad 6 (dt_microsecond dt) else [])
       @ ''+00:00''"

text \<open>
  The \<open>try\<close> block of \<open>_to_utc\<close>: \<open>Inl e\<close> when a statement of the block raises \<open>e\<close>,
  \<open>Inr (Some r)\<close> when the block returns \<open>r\<close>, \<open>Inr None\<close> when control leaves the block
  without a return. The argument is whatever the event holds, so \<open>fromisoformat\<close> on a
  value that is not a string raises \<open>TypeError\<close>.
\<close>

definition to_utc_try :: "fromisoformat \<Rightarrow> pyval \<Rightarrow> pyerror + pyval option" where
  "to_utc_try parse dt_str =
     (case dt_str of
        PStr s \<Rightarrow>
          (case parse s of
             Inl e \<Rightarrow> Inl e
           | Inr dt \<Rightarrow>
               if dt_utcoffset dt \<noteq> None
               then (case astimezone_utc dt of
                       Inl e \<Rightarrow> Inl e
                     | Inr u \<Rightarrow> Inr (Some (PStr (isoformat_utc u))))
               else Inr None)
      | _ \<Rightarrow> Inl TypeError)"

text \<open>\<open>_to_utc\<close>: \<open>except Exception: return dt_str\<close>, and \<open>return dt_str\<close> after the block.\<close>

definition to_utc :: "fromisoformat \<Rightarrow> pyval \<Rightarrow> pyval" where
  "to_utc parse dt_str =
     (case to_utc_try parse dt_str of
        Inl e \<Rightarrow> dt_str
      | Inr (Some r) \<Rightarrow> r
      | Inr None \<Rightarrow> dt_str)"

subsection \<open>A parser for the extended format\<close>

text \<open>
  For closed examples the parser is instantiated with the part of
  \<open>datetime.fromisoformat\<close> (Python 3.11) that reads the extended format
  \<open>YYYY-MM-DD\<close>, optionally followed by one separator character, \<open>HH:MM:SS\<close> and a
  zone that is \<open>Z\<close> or \<open>+HH:MM\<close> or \<open>-HH:MM\<close>. Every other string is answered with
  \<open>ValueError\<close> here, although Python reads further formats (basic format, week dates,
  fractions of a second); the theorems about \<open>to_utc\<close> that are not closed examples hold
  for every parser.
\<close>

definition digit_val :: "char \<Rightarrow> int option" where
  "digit_val c =
     (let n = (of_char c :: nat) in if 48 \<le> n \<and> n \<le> 57 then Some (int n - 48) else None)"

fun parse_digits :: "int \<Rightarrow> string \<Rightarrow> int option" where
  "parse_digits acc [] = Some acc"
| "parse_digits acc (c # cs) =
     (case digit_val c of None \<Rightarrow> None | Some d \<Rightarrow> parse_digits (acc * 10 + d) cs)"

definition parse_date :: "string \<Rightarrow> (int \<times> int \<times> int) option" where
  "parse_date s =
     (if length s = 10 \<and> s ! 4 = CHR ''-'' \<and> s ! 7 = CHR ''-''
      then (case (parse_digits 0 (take 4 s), parse_digits 0 (take 2 (drop 5 s)),
                  parse_digits 0 (drop 8 s)) of
              (Some y, Some m, Some d) \<Rightarrow>
                if 1 \<le> y \<and> 1 \<le> m \<and> m \<le> 12 \<and> 1 \<le> d \<and> d \<le> days_in_month y m
                then Some (y, m, d) else None
            | _ \<Rightarrow> None)
      else None)"

definition parse_hms :: "string \<Rightarrow> (int \<times> int \<times> int) option" where
  "parse_hms s =
     (if length s = 8 \<and> s ! 2 = CHR '':'' \<and> s ! 5 = CHR '':''
      then (case (parse_digits 0 (take 2 s), parse_digits 0 (take 2 (drop 3 s)),
                  parse_digits 0 (drop 6 s)) of
              (Some h, Some m, Some sec) \<Rightarrow>
                if h \<le> 23 \<and> m \<le> 59 \<and> sec \<le> 59 then Some (h, m, sec) else None
            | _ \<Rightarrow> None)
      else None)"

text \<open>The zone suffix: \<open>Inr None\<close> for no zone, \<open>Inr (Some seconds)\<close> for an offset.\<close>

definition parse_zone :: "string \<Rightarrow> pyerror + int option" where
  "parse_zone s =
     (if s = [] then Inr None
      else if s = ''Z'' then Inr (Some 0)
      else if length s = 6 \<and> (s ! 0 = CHR ''+'' \<or> s ! 0 = CHR ''-'') \<and> s ! 3 = CHR '':''
      then (case (parse_digits 0 (take 2 (drop 1 s)), parse_digits 0 (drop 4 s)) of
              (Some h, Some m) \<Rightarrow>
                let off = (if s ! 0 = CHR ''-'' then -1 else 1) * (h * 3600 + m * 60)
                in if -86400 < off \<and> off < 86400 then Inr (Some off) else Inl ValueError
            | _ \<Rightarrow> Inl ValueError)
      else Inl ValueError)"

definition fromisoformat_extended :: fromisoformat where
  "fromisoformat_extended s =
     (case parse_date (take 10 s) of
        None \<Rightarrow> Inl ValueError
      | Some (y, m, d) \<Rightarrow>
          if length s = 10
          then Inr \<lparr>dt_year = y, dt_month = m, dt_day = d, dt_hour = 0, dt_minute = 0,
                    dt_second = 0, dt_microsecond = 0, dt_utcoffset = None\<rparr>
          else (case parse_hms (take 8 (drop 11 s)) of
                  None \<Rightarrow> Inl ValueError
                | Some (h, mi, sec) \<Rightarrow>
                    (case parse_zone (drop 19 s) of
                       Inl e \<Rightarrow> Inl e
                     | Inr z \<Rightarrow>
                         Inr \<lparr>dt_year = y, dt_month = m, dt_day = d, dt_hour = h,
                              dt_minute = mi, dt_second = sec, dt_microsecond = 0,
                              dt_utcoffset = z\<rparr>)))"

section \<open>Record loaders\<close>

text \<open>
  A source file, as the loaders see it: \<open>path.name\<close>, \<open>Path(path).stem\<close> and the result
  of \<open>json.loads(path.read_text())\<close>, which is a value or an exception.
\<close>

record source_file =
  file_name :: string
  file_stem :: string
  file_data :: "pyerror + pyval"

text \<open>
  A loader is a generator of (record, metadata) pairs. Its output is the list of the
  results of its \<open>next\<close> calls: \<open>Inr\<close> for a yielded pair, \<open>Inl e\<close> for a call that
  raises \<open>e\<close>. A generator that has raised is finished, so a consumer never asks for
  the elements after the first \<open>Inl\<close>.
\<close>

type_synonym item = "pydict \<times> pydict"
type_synonym items = "(pyerror + item) list"

text \<open>\<open>for x in v\<close>: the elements of a list, the characters of a string, the keys of a
  dictionary; other values are not iterable.\<close>

definition py_iter :: "pyval \<Rightarrow> pyerror + pyval list" where
  "py_iter v =
     (case v of
        PList vs \<Rightarrow> Inr vs
      | PStr s \<Rightarrow> Inr (map (\<lambda>c. PStr [c]) s)
      | PDict d \<Rightarrow> Inr (map (\<lambda>kv. PStr (fst kv)) d)
      | _ \<Rightarrow> Inl TypeError)"

text \<open>The body of the loop of \<open>load_calendar_file\<close> (calendar.py, lines 31 to 56).
  Calling \<open>.get\<close> on a value that is not a dictionary raises \<open>AttributeError\<close>.\<close>

definition calendar_item :: "fromisoformat \<Rightarrow> source_file \<Rightarrow> nat \<Rightarrow> pyval \<Rightarrow> pyerror + item" where
  "calendar_item parse path idx ev =
     (case ev of
        PDict evd \<Rightarrow>
          (case (dict_get_default evd ''start'' (PDict []), dict_get_default evd ''end'' (PDict [])) of
             (PDict start, PDict end') \<Rightarrow>
               let start_dt = py_or (dict_get start ''dateTime'') (dict_get start ''date'');
                   end_dt = py_or (dict_get end' ''dateTime'') (dict_get end' ''date'');
                   record =
                     [(''summary'', dict_get evd ''summary''),
                      (''description'', dict_get evd ''description''),
                      (''location'', dict_get evd ''location''),
                      (''start_utc'', if truthy start_dt then to_utc parse start_dt else PNone),
                      (''end_utc'', if truthy end_dt then to_utc parse end_dt else PNone),
                      (''attendees'', dict_get evd ''attendees''),
                      (''organizer'', dict_get evd ''organizer''),
                      (''calendar_name'', dict_get evd ''calendar_name'')];
                   metadata =
                     [(''user_id'', PStr (file_stem path)),
                      (''source'', PStr (file_name path)),
                      (''record_id'',
                         dict_get_default evd ''event_id'' (PStr (''event-'' @ string_of_nat idx))),
                      (''timestamp'',
                         py_or (dict_get record ''start_utc'') (dict_get record ''end_utc'')),
                      (''start_utc'', dict_get record ''start_utc''),
                      (''end_utc'', dict_get record ''end_utc'')]
               in Inr (record, metadata)
           | _ \<Rightarrow> Inl AttributeError)
      | _ \<Rightarrow> Inl AttributeError)"

text \<open>The statements of a loader before its loop (lines 26 to 28 of calendar.py, 12 to 14
  of vision.py and audio.py), then the loop over the enumerated elements.\<close>

definition load_elements ::
  "string \<Rightarrow> (nat \<Rightarrow> pyval \<Rightarrow> pyerror + item) \<Rightarrow> source_file \<Rightarrow> items" where
  "load_elements key body path =
     (case file_data path of
        Inl e \<Rightarrow> [Inl e]
      | Inr (PDict data) \<Rightarrow>
          (case py_iter (dict_get_default data key (PList [])) of
             Inl e \<Rightarrow> [Inl e]
           | Inr elems \<Rightarrow> map (\<lambda>(idx, el). body idx el) (enumerate 0 elems))
      | Inr _ \<Rightarrow> [Inl AttributeError])"

definition load_calendar_file :: "fromisoformat \<Rightarrow> source_file \<Rightarrow> items" where
  "load_calendar_file parse path = load_elements ''events'' (calendar_item parse path) path"

definition vision_item :: "source_file \<Rightarrow> nat \<Rightarrow> pyval \<Rightarrow> pyerror + item" where
  "vision_item path idx ex =
     (case ex of
        PDict exd \<Rightarrow>
          (case dict_get_default exd ''content'' (PDict []) of
             PDict content \<Rightarrow>
               Inr ([(''description'', dict_get content ''description''),
                     (''text'', dict_get content ''text''),
                     (''filename'', dict_get exd ''filename''),
                     (''date'', dict_get exd ''date'')],
                    [(''user_id'', PStr (file_stem path)),
                     (''source'', PStr (file_name path)),
                     (''record_id'',
                        dict_get_default exd ''filename'' (PStr (''vision-'' @ string_of_nat idx))),
                     (''timestamp'', dict_get exd ''date'')])
           | _ \<Rightarrow> Inl AttributeError)
      | _ \<Rightarrow> Inl AttributeError)"

definition load_vision_file :: "source_file \<Rightarrow> items" where
  "load_vision_file path = load_elements ''extractions'' (vision_item path) path"

definition audio_item :: "source_file \<Rightarrow> nat \<Rightarrow> pyval \<Rightarrow> pyerror + item" where
  "audio_item path idx ex =
     (case ex of
        PDict exd \<Rightarrow>
          (case dict_get_default exd ''content'' (PDict []) of
             PDict content \<Rightarrow>
               Inr ([(''transcription'', dict_get content ''transcription''),
                     (''filename'', dict_get exd ''filename''),
                     (''date'', dict_get exd ''date'')],
                    [(''user_id'', PStr (file_stem path)),
                     (''source'', PStr (file_name path)),
                     (''record_id'',
                        dict_get_default exd ''filename'' (PStr (''audio-'' @ string_of_nat idx))),
                     (''timestamp'', dict_get exd ''date'')])
           | _ \<Rightarrow> Inl AttributeError)
      | _ \<Rightarrow> Inl AttributeError)"

definition load_audio_file :: "source_file \<Rightarrow> items" where
  "load_audio_file path = load_elements ''extractions'' (audio_item path) path"

section \<open>Ingestion\<close>

record IngestConfig =
  cfg_model :: string
  cfg_timeout :: int
  cfg_dry_run :: bool
  cfg_limit :: "int option"
  cfg_user_id :: string
  cfg_verbose :: bool
  cfg_enrich :: bool

definition default_config :: IngestConfig where
  "default_config =
     \<lparr>cfg_model = ''grok-4-1-fast-reasoning'', cfg_timeout = 60, cfg_dry_run = False,
      cfg_limit = None, cfg_user_id = ''demo_user'', cfg_verbose = False, cfg_enrich = True\<rparr>"

text \<open>The arguments of one call \<open>mem.add_memory(user_id=, text=, metadata=, infer=)\<close>.\<close>

record store_call =
  sc_user_id :: pyval
  sc_text :: string
  sc_metadata :: pydict
  sc_infer :: bool

text \<open>The calls made on the memory service, in the order in which they are made.\<close>

datatype mem_call = GetMemories pyval | AddMemory store_call

text \<open>
  The collaborators of the pipeline are outside the repository: the library functions
  \<open>datetime.fromisoformat\<close> and \<open>json.dumps\<close>, the constructor \<open>Client(timeout=...)\<close>
  and the chat interface of the text-generation service, and the two methods of the
  memory service object \<open>mem\<close>. Each call on a service takes the state of the outside
  world and returns a value or an exception, and the next state of the world; the
  theorems hold for every such environment.
\<close>

record 'w env =
  env_fromisoformat :: fromisoformat
  env_json_dumps :: json_dumps
  env_Client :: "int \<Rightarrow> 'w \<Rightarrow> (pyerror + unit) \<times> 'w"
  env_chat_create :: "string \<Rightarrow> 'w \<Rightarrow> (pyerror + unit) \<times> 'w"
  env_chat_sample :: "string \<Rightarrow> string \<Rightarrow> 'w \<Rightarrow> (pyerror + pyval) \<times> 'w"
  env_get_memories :: "pyval \<Rightarrow> 'w \<Rightarrow> (pyerror + pydict list) \<times> 'w"
  env_add_memory :: "store_call \<Rightarrow> 'w \<Rightarrow> (pyerror + unit) \<times> 'w"

definition sys_prompt :: string where
  "sys_prompt =
     ''You are a life co-pilot that extracts a single, user-relevant fact for memory. ''
     @ ''Output ONE short factual sentence using only the provided fields. Prioritize user preferences, requests, ''
     @ ''important statements, relationships, career/school, travel/plans, or commitments. Keep it concise and actionable. ''
     @ ''Do not add or infer anything not present. If nothing clearly useful to the user is present, return an empty string. ''
     @ ''No lists or tables. If reference memories are provided, use them only when they explicitly support the fact; otherwise ignore them.''"

text \<open>\<open>grok_enrich\<close> (pipeline.py, lines 83 to 115). The last line is
  \<open>(resp.content or "").strip()\<close>.\<close>

definition grok_enrich ::
  "'w env \<Rightarrow> string \<Rightarrow> pydict \<Rightarrow> string \<Rightarrow> pyval list \<Rightarrow> 'w \<Rightarrow> (pyerror + string) \<times> 'w" where
  "grok_enrich env model record context_note prior_mems w =
     (case env_chat_create env model w of
        (Inl e, w1) \<Rightarrow> (Inl e, w1)
      | (Inr _, w1) \<Rightarrow>
          (case env_json_dumps env
                  (PDict [(''note'', PStr context_note), (''record'', PDict record),
                          (''reference_memories'', PList prior_mems)]) of
             Inl e \<Rightarrow> (Inl e, w1)
           | Inr msg \<Rightarrow>
               (case env_chat_sample env sys_prompt msg w1 of
                  (Inl e, w2) \<Rightarrow> (Inl e, w2)
                | (Inr content, w2) \<Rightarrow>
                    (case py_or content (PStr []) of
                       PStr s \<Rightarrow> (Inr (py_strip s), w2)
                     | _ \<Rightarrow> (Inl AttributeError, w2)))))"

text \<open>
  \<open>_iter_limited\<close> (lines 118 to 125). With a limit, \<open>enumerate\<close> takes the next element
  from the loader before the index is compared with the limit, so an exception of the
  loader at that element is raised although the element would not have been yielded.
\<close>

fun iter_limited_from :: "int \<Rightarrow> int \<Rightarrow> (pyerror + 'a) list \<Rightarrow> (pyerror + 'a) list" where
  "iter_limited_from idx limit [] = []"
| "iter_limited_from idx limit (Inl e # rest) = [Inl e]"
| "iter_limited_from idx limit (Inr x # rest) =
     (if idx \<ge> limit then [] else Inr x # iter_limited_from (idx + 1) limit rest)"

definition iter_limited :: "(pyerror + 'a) list \<Rightarrow> int option \<Rightarrow> (pyerror + 'a) list" where
  "iter_limited items limit =
     (case limit of None \<Rightarrow> items | Some n \<Rightarrow> iter_limited_from 0 n items)"

text \<open>
  The local variables of \<open>ingest_file\<close> that live across the iterations of its loop,
  together with what the loop leaves behind outside of them: the calls made on the
  memory service, the state of the outside world, and, for every record that reaches
  line 196, the derived text and the metadata dictionary as the loop body has updated it
  in place.
\<close>

record 'w loop_state =
  processed :: int
  stored :: int
  occurrence_counts :: "string \<rightharpoonup> int"
  memories_cache :: "pydict list option"
  mem_calls :: "mem_call list"
  derived :: "(string \<times> pydict) list"
  world :: 'w

definition init_state :: "'w \<Rightarrow> 'w loop_state" where
  "init_state w =
     \<lparr>processed = 0, stored = 0, occurrence_counts = Map.empty, memories_cache = None,
      mem_calls = [], derived = [], world = w\<rparr>"

text \<open>Lines 158 to 162: the memory list is fetched when the cache is \<open>None\<close>; an exception
  of the fetch leaves the empty list in the cache.\<close>

definition fetch_memories :: "'w env \<Rightarrow> pyval \<Rightarrow> 'w loop_state \<Rightarrow> 'w loop_state" where
  "fetch_memories env user_id st =
     (case memories_cache st of
        Some ms \<Rightarrow> st
      | None \<Rightarrow>
          (case env_get_memories env user_id (world st) of
             (Inr ms, w) \<Rightarrow>
               st\<lparr>memories_cache := Some ms, mem_calls := mem_calls st @ [GetMemories user_id],
                   world := w\<rparr>
           | (Inl e, w) \<Rightarrow>
               st\<lparr>memories_cache := Some [], mem_calls := mem_calls st @ [GetMemories user_id],
                   world := w\<rparr>))"

text \<open>Lines 166 to 192: the text of the record. \<open>Inr None\<close> is the \<open>continue\<close> of an empty
  text, \<open>Inl e\<close> an exception of the enrichment.\<close>

definition context_note :: "string \<Rightarrow> string" where
  "context_note connector =
     (if connector = ''calendar''
      then ''Connector: calendar. Include start_utc and end_utc if present, keep it to one short factual sentence.''
      else ''Connector: '' @ connector @ ''. Keep it factual and concise.'')"

definition derive_text ::
  "'w env \<Rightarrow> string \<Rightarrow> IngestConfig \<Rightarrow> pydict \<Rightarrow> pyval list \<Rightarrow> 'w \<Rightarrow> (pyerror + string option) \<times> 'w" where
  "derive_text env connector cfg record prior_mems w =
     (if cfg_enrich cfg
      then (case grok_enrich env (cfg_model cfg) record (context_note connector) prior_mems w of
              (Inl e, w') \<Rightarrow> (Inl e, w')
            | (Inr text, w') \<Rightarrow> (Inr (if text = [] then None else Some text), w'))
      else (let text = record_to_plain_text (env_json_dumps env) record
            in (Inr (if text = [] then None else Some text), w)))"

text \<open>Lines 194 to 213: what the loop body does with a text that is not empty. The
  subscript \<open>metadata["source"]\<close> raises \<open>KeyError\<close> when the key is missing.\<close>

definition store_text ::
  "'w env \<Rightarrow> string \<Rightarrow> IngestConfig \<Rightarrow> pyval \<Rightarrow> pydict \<Rightarrow> string \<Rightarrow> 'w loop_state
     \<Rightarrow> pyerror option \<times> 'w loop_state" where
  "store_text env connector cfg user_id metadata text st =
     (let n = (case occurrence_counts st text of None \<Rightarrow> 0 | Some c \<Rightarrow> c) + 1;
          metadata = dict_set metadata ''occurrence_count'' (PInt n);
          st = st\<lparr>occurrence_counts := fun_upd (occurrence_counts st) text (Some n),
                  derived := derived st @ [(text, metadata)]\<rparr>
      in case map_of metadata ''source'' of
           None \<Rightarrow> (Some KeyError, st)
         | Some source \<Rightarrow>
             if cfg_dry_run cfg then (None, st)
             else
               let call = \<lparr>sc_user_id = user_id, sc_text = text,
                            sc_metadata =
                              [(''connector'', PStr connector),
                               (''source'', source),
                               (''record_id'', dict_get metadata ''record_id''),
                               (''timestamp'', dict_get metadata ''timestamp'')],
                            sc_infer = False\<rparr>;
                   st = st\<lparr>mem_calls := mem_calls st @ [AddMemory call]\<rparr>
               in case env_add_memory env call (world st) of
                    (Inl e, w) \<Rightarrow> (Some e, st\<lparr>world := w\<rparr>)
                  | (Inr _, w) \<Rightarrow> (None, st\<lparr>world := w, stored := stored st + 1\<rparr>))"

text \<open>One iteration of the loop of \<open>ingest_file\<close> (lines 154 to 217). The first component
  of the result is the exception that ends the loop, if there is one.\<close>

definition ingest_record ::
  "'w env \<Rightarrow> string \<Rightarrow> IngestConfig \<Rightarrow> item \<Rightarrow> 'w loop_state \<Rightarrow> pyerror option \<times> 'w loop_state" where
  "ingest_record env connector cfg it st0 =
     (let record = fst it;
          metadata = snd it;
          st = st0\<lparr>processed := processed st0 + 1\<rparr>;
          user_id = py_or (py_or (PStr (cfg_user_id cfg)) (dict_get metadata ''user_id''))
                      (PStr ''demo_user'');
          metadata = dict_set metadata ''user_id'' user_id;
          st = fetch_memories env user_id st;
          prior_mems = select_context_mems record
                         (case memories_cache st of None \<Rightarrow> [] | Some ms \<Rightarrow> ms) 3
      in case derive_text env connector cfg record prior_mems (world st) of
           (Inl e, w) \<Rightarrow> (Some e, st\<lparr>world := w\<rparr>)
         | (Inr None, w) \<Rightarrow> (None, st\<lparr>world := w\<rparr>)
         | (Inr (Some text), w) \<Rightarrow>
             store_text env connector cfg user_id metadata text (st\<lparr>world := w\<rparr>))"

text \<open>The \<open>for\<close> loop of \<open>ingest_file\<close> over the elements that \<open>_iter_limited\<close> yields.\<close>

fun ingest_loop ::
  "'w env \<Rightarrow> string \<Rightarrow> IngestConfig \<Rightarrow> items \<Rightarrow> 'w loop_state \<Rightarrow> pyerror option \<times> 'w loop_state" where
  "ingest_loop env connector cfg [] st = (None, st)"
| "ingest_loop env connector cfg (Inl e # rest) st = (Some e, st)"
| "ingest_loop env connector cfg (Inr it # rest) st =
     (case ingest_record env connector cfg it st of
        (Some e, st') \<Rightarrow> (Some e, st')
      | (None, st') \<Rightarrow> ingest_loop env connector cfg rest st')"

text \<open>Lines 138 to 142: the loader of a connector; a subscript with another key raises
  \<open>KeyError\<close>.\<close>

definition loader_for :: "string \<Rightarrow> (fromisoformat \<Rightarrow> source_file \<Rightarrow> items) option" where
  "loader_for connector =
     (if connector = ''calendar'' then Some load_calendar_file
      else if connector = ''vision'' then Some (\<lambda>parse. load_vision_file)
      else if connector = ''audio'' then Some (\<lambda>parse. load_audio_file)
      else None)"

text \<open>
  \<open>ingest_file\<close>: the value it returns, or the exception it raises, and the state in
  which the loop ended.
\<close>

definition ingest_file ::
  "'w env \<Rightarrow> string \<Rightarrow> source_file \<Rightarrow> IngestConfig \<Rightarrow> 'w \<Rightarrow> (pyerror + int \<times> int) \<times> 'w loop_state" where
  "ingest_file env connector path cfg w =
     (case loader_for connector of
        None \<Rightarrow> (Inl KeyError, init_state w)
      | Some loader \<Rightarrow>
          (case env_Client env (cfg_timeout cfg) w of
             (Inl e, w') \<Rightarrow> (Inl e, init_state w')
           | (Inr _, w') \<Rightarrow>
               (case ingest_loop env connector cfg
                       (iter_limited (loader (env_fromisoformat env) path) (cfg_limit cfg))
                       (init_state w') of
                  (Some e, st) \<Rightarrow> (Inl e, st)
                | (None, st) \<Rightarrow> (Inr (processed st, stored st), st))))"

text \<open>\<open>ingest_paths\<close> (lines 222 to 238): the loop over the paths with its two totals.\<close>

fun ingest_paths_loop ::
  "'w env \<Rightarrow> string \<Rightarrow> IngestConfig \<Rightarrow> source_file list \<Rightarrow> int \<times> int \<Rightarrow> 'w \<Rightarrow> (pyerror + int \<times> int) \<times> 'w" where
  "ingest_paths_loop env connector cfg [] totals w = (Inr totals, w)"
| "ingest_paths_loop env connector cfg (p # ps) totals w =
     (case ingest_file env connector p cfg w of
        (Inl e, st) \<Rightarrow> (Inl e, world st)
      | (Inr (proc, sto), st) \<Rightarrow>
          ingest_paths_loop env connector cfg ps (fst totals + proc, snd totals + sto) (world st))"

definition ingest_paths ::
  "'w env \<Rightarrow> string \<Rightarrow> source_file list \<Rightarrow> IngestConfig \<Rightarrow> 'w \<Rightarrow> (pyerror + int \<times> int) \<times> 'w" where
  "ingest_paths env connector paths cfg w = ingest_paths_loop env connector cfg paths (0, 0) w"

section \<open>Observations on a run\<close>

fun is_get :: "mem_call \<Rightarrow> bool" where
  "is_get (GetMemories u) = True"
| "is_get (AddMemory c) = False"

fun is_add :: "mem_call \<Rightarrow> bool" where
  "is_add (AddMemory c) = True"
| "is_add (GetMemories u) = False"

text \<open>The store calls among the calls on the memory service.\<close>

fun store_calls :: "mem_call list \<Rightarrow> store_call list" where
  "store_calls [] = []"
| "store_calls (AddMemory c # cs) = c # store_calls cs"
| "store_calls (GetMemories u # cs) = store_calls cs"

text \<open>
  The occurrence counter agrees with the texts derived so far: a text that has been
  derived \<open>k > 0\<close> times has the count \<open>k\<close>, and a text that has not been derived has
  no entry.
\<close>

definition counts_agree :: "'w loop_state \<Rightarrow> bool" where
  "counts_agree st =
     (\<forall>t. occurrence_counts st t =
            (if t \<in> set (map fst (derived st))
             then Some (int (count_list (map fst (derived st)) t)) else None))"

text \<open>The count attached to the \<open>n\<close>-th derived text is the number of times that this
  text occurs among the first \<open>n\<close> derived texts, the \<open>n\<close>-th included.\<close>

definition occurrence_ok :: "(string \<times> pydict) list \<Rightarrow> bool" where
  "occurrence_ok ds =
     (\<forall>n < length ds.
        dict_get (snd (ds ! n)) ''occurrence_count''
          = PInt (int (count_list (map fst (take (Suc n) ds)) (fst (ds ! n)))))"

definition four_fields :: "store_call \<Rightarrow> bool" where
  "four_fields c = (map fst (sc_metadata c) = [''connector'', ''source'', ''record_id'', ''timestamp''])"

text \<open>The elements that the loop of \<open>ingest_file\<close> iterates over for a connector, a file
  and a limit.\<close>

definition file_items :: "'w env \<Rightarrow> string \<Rightarrow> source_file \<Rightarrow> items" where
  "file_items env connector path =
     (case loader_for connector of None \<Rightarrow> [] | Some loader \<Rightarrow> loader (env_fromisoformat env) path)"

text \<open>The values that \<open>ingest_file\<close> returns for the paths of \<open>ingest_paths\<close>, one after
  the other, up to the first call that raises.\<close>

fun file_results ::
  "'w env \<Rightarrow> string \<Rightarrow> IngestConfig \<Rightarrow> source_file list \<Rightarrow> 'w \<Rightarrow> (pyerror + int \<times> int) list" where
  "file_results env connector cfg [] w = []"
| "file_results env connector cfg (p # ps) w =
     (case ingest_file env connector p cfg w of
        (Inl e, st) \<Rightarrow> [Inl e]
      | (Inr pr, st) \<Rightarrow> Inr pr # file_results env connector cfg ps (world st))"

text \<open>The memory service of an environment with the exceptions of its fetch replaced by
  the empty memory list.\<close>

definition fetch_or_empty :: "'w env \<Rightarrow> 'w env" where
  "fetch_or_empty env =
     env\<lparr>env_get_memories :=
           (\<lambda>user_id w. case env_get_memories env user_id w of
                           (Inl e, w') \<Rightarrow> (Inr [], w')
                         | (Inr ms, w') \<Rightarrow> (Inr ms, w'))\<rparr>"

section \<open>Closed environments and files for the examples\<close>

text \<open>A serializer whose output the examples do not inspect.\<close>

definition dumps_opaque :: json_dumps where
  "dumps_opaque v = Inr ''{}''"

text \<open>An environment in which every service call succeeds; the world counts the calls.
  The memory service holds \<open>milk_memories\<close>; the chat service gives the same answer every
  time.\<close>

definition calm_env :: "nat env" where
  "calm_env =
     \<lparr>env_fromisoformat = fromisoformat_extended,
      env_json_dumps = dumps_opaque,
      env_Client = (\<lambda>timeout w. (Inr (), w)),
      env_chat_create = (\<lambda>model w. (Inr (), Suc w)),
      env_chat_sample = (\<lambda>sys msg w. (Inr (PStr '' Met Bob. ''), Suc w)),
      env_get_memories = (\<lambda>user_id w. (Inr milk_memories, Suc w)),
      env_add_memory = (\<lambda>call w. (Inr (), Suc w))\<rparr>"

text \<open>The same environment with a memory service whose fetch raises.\<close>

definition down_env :: "nat env" where
  "down_env = calm_env\<lparr>env_get_memories := (\<lambda>user_id w. (Inl (ServiceError ''unreachable''), Suc w))\<rparr>"

definition dentist_event :: pyval where
  "dentist_event =
     PDict [(''summary'', PStr ''Dentist''),
            (''start'', PDict [(''dateTime'', PStr ''2025-03-01T09:00:00Z'')]),
            (''end'', PDict [(''dateTime'', PStr ''2025-03-01T10:00:00Z'')])]"

definition dentist_file :: source_file where
  "dentist_file =
     \<lparr>file_name = ''alice.json'', file_stem = ''alice'',
      file_data = Inr (PDict [(''events'', PList [dentist_event])])\<rparr>"

definition raw_config :: IngestConfig where
  "raw_config = default_config\<lparr>cfg_enrich := False\<rparr>"

section \<open>Properties of the context selector\<close>

lemma score_loop_eq:
  "score_loop rtoks mems scored =
     scored @ map (\<lambda>t. (overlap_score rtoks t, t))
                (filter (\<lambda>t. overlap_score rtoks t > 0) (map mem_text mems))"
  by (induction mems arbitrary: scored) (simp_all add: Let_def)

lemma insort_key_map_pair:
  "insort_key fst (f x, x) (map (\<lambda>t. (f t, t)) xs) = map (\<lambda>t. (f t, t)) (insort_key f x xs)"
  by (induction xs) simp_all

lemma sort_key_map_pair:
  "sort_key fst (map (\<lambda>t. (f t, t)) xs) = map (\<lambda>t. (f t, t)) (sort_key f xs)"
  by (induction xs) (simp_all add: insort_key_map_pair)

lemma py_sort_reverse_map_pair:
  "py_sort_reverse fst (map (\<lambda>t. (f t, t)) xs) = map (\<lambda>t. (f t, t)) (py_sort_reverse f xs)"
  by (simp add: py_sort_reverse_def sort_key_map_pair rev_map)

lemma py_sort_reverse_stable:
  "filter (\<lambda>y. key y = k) (py_sort_reverse key xs) = filter (\<lambda>y. key y = k) xs"
  by (simp add: py_sort_reverse_def sort_key_stable flip: rev_filter)

lemma py_sort_reverse_set: "set (py_sort_reverse key xs) = set xs"
  by (simp add: py_sort_reverse_def)

lemma py_sort_reverse_sorted: "sorted_wrt (\<ge>) (map key (py_sort_reverse key xs))"
proof -
  have "sorted (map key (sort_key key (rev xs)))" by (rule sorted_sort_key)
  then have "sorted_wrt (\<le>) (rev (map key (py_sort_reverse key xs)))"
    by (simp add: py_sort_reverse_def rev_map)
  then show ?thesis by (simp add: sorted_wrt_rev)
qed

lemma py_slice_to_take: "\<exists>m. py_slice_to xs n = take m xs"
  by (auto simp: py_slice_to_def)

lemma py_slice_to_length: "0 \<le> n \<Longrightarrow> int (length (py_slice_to xs n)) \<le> n"
  by (simp add: py_slice_to_def)

lemma select_context_mems_eq:
  "select_context_mems record memories max_items =
     py_slice_to (py_sort_reverse (overlap_score (record_tokens record))
                    (positive_texts (record_tokens record) memories)) max_items"
proof -
  have "map snd (py_slice_to (map (\<lambda>t. (f t, t)) ys) n) = py_slice_to ys n" for f :: "pyval \<Rightarrow> nat" and ys n
    by (simp add: py_slice_to_def take_map comp_def)
  then show ?thesis
    by (simp add: select_context_mems_def Let_def score_loop_eq py_sort_reverse_map_pair positive_texts_def)
qed

lemma select_context_mems_take:
  "\<exists>m. select_context_mems record memories max_items =
     take m (py_sort_reverse (overlap_score (record_tokens record))
                    (positive_texts (record_tokens record) memories))"
  unfolding select_context_mems_eq by (rule py_slice_to_take)

lemma filter_take_prefix: "prefix (filter P (take m xs)) (filter P xs)"
proof -
  have "filter P xs = filter P (take m xs) @ filter P (drop m xs)"
    by (metis append_take_drop_id filter_append)
  then show ?thesis by (metis prefixI)
qed

text \<open>
  Claim C1. For every record and every list of memories, \<open>_select_context_mems\<close> returns at
  most \<open>max_items\<close> memory texts, for every bound that is not negative and in particular
  for the default 3 that the pipeline uses; every returned text has a positive
  token-overlap score with the textual fields of the record; and a record whose textual
  fields tokenize to the empty set gets the empty list. The function has no raising
  branch: on a dictionary and a list of dictionaries every operation it performs
  (\<open>dict.get\<close>, \<open>isinstance\<close>, the string methods, the set intersection, the sort on
  integer keys and the slice) is defined, so the model is a total function.
\<close>

theorem select_context_mems_bounded:
  "(0 \<le> max_items \<longrightarrow> int (length (select_context_mems record memories max_items)) \<le> max_items)
   \<and> length (select_context_mems record memories 3) \<le> 3
   \<and> (\<forall>t \<in> set (select_context_mems record memories max_items).
         overlap_score (record_tokens record) t > 0)
   \<and> (record_tokens record = {} \<longrightarrow> select_context_mems record memories max_items = [])"
proof (intro conjI impI ballI)
  assume "0 \<le> max_items"
  then show "int (length (select_context_mems record memories max_items)) \<le> max_items"
    unfolding select_context_mems_eq by (rule py_slice_to_length)
next
  have "int (length (select_context_mems record memories 3)) \<le> 3"
    unfolding select_context_mems_eq by (rule py_slice_to_length) simp
  then show "length (select_context_mems record memories 3) \<le> 3" by simp
next
  fix t assume "t \<in> set (select_context_mems record memories max_items)"
  moreover obtain m where "select_context_mems record memories max_items =
     take m (py_sort_reverse (overlap_score (record_tokens record))
                    (positive_texts (record_tokens record) memories))"
    using select_context_mems_take by blast
  ultimately have "t \<in> set (positive_texts (record_tokens record) memories)"
    using in_set_takeD py_sort_reverse_set by fastforce
  then show "overlap_score (record_tokens record) t > 0"
    by (simp add: positive_texts_def)
next
  assume "record_tokens record = {}"
  then have "positive_texts (record_tokens record) memories = []"
    by (simp add: positive_texts_def overlap_score_def)
  then show "select_context_mems record memories max_items = []"
    by (simp add: select_context_mems_eq py_sort_reverse_def py_slice_to_def)
qed

text \<open>
  Claim C8. Context selection is a function of the record, the memory list and the bound
  alone, so two runs on the same input give the same list. Its output is ordered by
  token-overlap score, descending, and for every score the returned texts of that score
  are an initial segment of the texts of that score in the order of the input memory
  list: ties keep their relative order.
\<close>

theorem select_context_mems_stable:
  "sorted_wrt (\<ge>) (map (overlap_score (record_tokens record))
       (select_context_mems record memories max_items))
   \<and> (\<forall>k. prefix
         (filter (\<lambda>t. overlap_score (record_tokens record) t = k)
            (select_context_mems record memories max_items))
         (filter (\<lambda>t. overlap_score (record_tokens record) t = k) (map mem_text memories)))"
proof (intro conjI allI)
  obtain m where m: "select_context_mems record memories max_items =
     take m (py_sort_reverse (overlap_score (record_tokens record))
                    (positive_texts (record_tokens record) memories))"
    using select_context_mems_take by blast
  let ?sc = "overlap_score (record_tokens record)"
  let ?full = "py_sort_reverse ?sc (positive_texts (record_tokens record) memories)"
  have "sorted_wrt (\<ge>) (map ?sc ?full)" by (rule py_sort_reverse_sorted)
  then have "sorted_wrt (\<ge>) (take m (map ?sc ?full))"
    by (rule sorted_wrt_take)
  then show "sorted_wrt (\<ge>) (map ?sc (select_context_mems record memories max_items))"
    by (simp add: m take_map)
  fix k
  have "prefix (filter (\<lambda>t. ?sc t = k) (take m ?full)) (filter (\<lambda>t. ?sc t = k) ?full)"
    by (rule filter_take_prefix)
  also have "filter (\<lambda>t. ?sc t = k) ?full = filter (\<lambda>t. ?sc t = k) (positive_texts (record_tokens record) memories)"
    by (rule py_sort_reverse_stable)
  also have "\<dots> = filter (\<lambda>t. ?sc t = k \<and> 0 < k) (map mem_text memories)"
    by (auto simp: positive_texts_def intro: filter_cong)
  also have "prefix \<dots> (filter (\<lambda>t. ?sc t = k) (map mem_text memories))"
    by (cases "0 < k") simp_all
  finally show "prefix (filter (\<lambda>t. ?sc t = k) (select_context_mems record memories max_items))
         (filter (\<lambda>t. ?sc t = k) (map mem_text memories))"
    by (simp add: m)
qed

lemma milk_selection:
  "select_context_mems milk_record milk_memories 3
     = [PStr ''buy milk'', PStr ''today: buy, milk'', PStr ''Milk is good.'']"
  by code_simp

lemma blank_tokens: "record_tokens blank_record = {}"
  by (simp add: record_tokens_def blank_record_def dict_get_def dict_get_default_def)

theorem select_context_mems_bounded_witness:
  "(0::int) \<le> 3
   \<and> int (length (select_context_mems milk_record milk_memories 3)) \<le> 3
   \<and> PStr ''buy milk'' \<in> set (select_context_mems milk_record milk_memories 3)
   \<and> overlap_score (record_tokens milk_record) (PStr ''buy milk'') > 0
   \<and> record_tokens blank_record = {}
   \<and> select_context_mems blank_record milk_memories 3 = []"
proof -
  have m: "PStr ''buy milk'' \<in> set (select_context_mems milk_record milk_memories 3)"
    by (simp add: milk_selection)
  note a = select_context_mems_bounded [of 3 milk_record milk_memories]
  note b = select_context_mems_bounded [of 3 blank_record milk_memories]
  from a have "int (length (select_context_mems milk_record milk_memories 3)) \<le> 3" by simp
  moreover from a m have "overlap_score (record_tokens milk_record) (PStr ''buy milk'') > 0" by blast
  moreover from b blank_tokens have "select_context_mems blank_record milk_memories 3 = []" by blast
  ultimately show ?thesis using m blank_tokens by simp
qed

theorem select_context_mems_stable_witness:
  "sorted_wrt (\<ge>) (map (overlap_score (record_tokens milk_record))
       [PStr ''buy milk'', PStr ''today: buy, milk'', PStr ''Milk is good.''])
   \<and> prefix
         (filter (\<lambda>t. overlap_score (record_tokens milk_record) t = 2)
            [PStr ''buy milk'', PStr ''today: buy, milk'', PStr ''Milk is good.''])
         (filter (\<lambda>t. overlap_score (record_tokens milk_record) t = 2) (map mem_text milk_memories))"
  using select_context_mems_stable [of milk_record milk_memories 3]
  unfolding milk_selection by blast


section \<open>Properties of the raw-text extraction\<close>

lemma first_text_None: "first_text cs = None \<longleftrightarrow> (\<forall>c \<in> set cs. \<not> is_text c)"
  by (induction cs rule: first_text.induct) auto

lemma first_text_skip: "\<not> is_text c \<Longrightarrow> first_text (c # cs) = first_text cs"
  by (cases c) auto

lemma first_text_at:
  "i < length cs \<Longrightarrow> cs ! i = PStr s \<Longrightarrow> py_strip s \<noteq> [] \<Longrightarrow> \<forall>j<i. \<not> is_text (cs ! j)
     \<Longrightarrow> first_text cs = Some (py_strip s)"
proof (induction cs arbitrary: i)
  case Nil
  then show ?case by simp
next
  case (Cons c cs)
  show ?case
  proof (cases i)
    case 0
    with Cons.prems show ?thesis by simp
  next
    case (Suc i')
    from Cons.prems(4) Suc have "\<not> is_text ((c # cs) ! 0)" by blast
    then have skip: "first_text (c # cs) = first_text cs" by (simp add: first_text_skip)
    have "\<forall>j<i'. \<not> is_text (cs ! j)"
    proof (intro allI impI)
      fix j assume "j < i'"
      then have "Suc j < i" using Suc by simp
      with Cons.prems(4) have "\<not> is_text ((c # cs) ! Suc j)" by blast
      then show "\<not> is_text (cs ! j)" by simp
    qed
    moreover have "i' < length cs" "cs ! i' = PStr s" using Cons.prems Suc by auto
    ultimately have "first_text cs = Some (py_strip s)"
      using Cons.IH Cons.prems(3) by blast
    with skip show ?thesis by simp
  qed
qed

text \<open>
  Claim C4, as amended. For every record, \<open>_record_to_plain_text\<close> tries the fields
  \<open>transcription\<close>, \<open>description\<close>, \<open>text\<close>, \<open>summary\<close> in that order and returns the
  value, stripped of surrounding whitespace, of the first that is a string with a
  character other than whitespace; if none is, it returns the stripped value of the
  first such string among the values of the record in iteration order; if there is
  none either, it returns the JSON serialization of the record, or the empty string when
  the serialization raises. For \<open>{"summary": "", "text": "buy milk"}\<close> it returns
  \<open>"buy milk"\<close>.
\<close>

theorem record_to_plain_text_cases:
  "(i < length priority_fields \<and> dict_get record (priority_fields ! i) = PStr s \<and> py_strip s \<noteq> []
      \<and> (\<forall>j<i. \<not> is_text (dict_get record (priority_fields ! j)))
     \<longrightarrow> record_to_plain_text dumps record = py_strip s)
   \<and> ((\<forall>k \<in> set priority_fields. \<not> is_text (dict_get record k))
      \<and> i < length (dict_values record) \<and> dict_values record ! i = PStr s \<and> py_strip s \<noteq> []
      \<and> (\<forall>j<i. \<not> is_text (dict_values record ! j))
     \<longrightarrow> record_to_plain_text dumps record = py_strip s)
   \<and> ((\<forall>k \<in> set priority_fields. \<not> is_text (dict_get record k))
      \<and> (\<forall>v \<in> set (dict_values record). \<not> is_text v)
     \<longrightarrow> record_to_plain_text dumps record = (case dumps (PDict record) of Inr js \<Rightarrow> js | Inl e \<Rightarrow> []))
   \<and> record_to_plain_text dumps [(''summary'', PStr []), (''text'', PStr ''buy milk'')] = ''buy milk''"
proof -
  let ?cands = "map (dict_get record) priority_fields"
  have unfold: "record_to_plain_text dumps record =
     (case first_text ?cands of Some t \<Rightarrow> t
      | None \<Rightarrow> (case first_text (dict_values record) of Some t \<Rightarrow> t
         | None \<Rightarrow> (case dumps (PDict record) of Inr js \<Rightarrow> js | Inl e \<Rightarrow> [])))"
    by (simp add: record_to_plain_text_def priority_fields_def)
  have none: "first_text ?cands = None" if "\<forall>k \<in> set priority_fields. \<not> is_text (dict_get record k)"
    using that by (simp add: first_text_None)
  have a: "record_to_plain_text dumps record = py_strip s"
    if "i < length priority_fields" "dict_get record (priority_fields ! i) = PStr s" "py_strip s \<noteq> []"
       "\<forall>j<i. \<not> is_text (dict_get record (priority_fields ! j))"
  proof -
    have "first_text ?cands = Some (py_strip s)"
      using that by (intro first_text_at[of i]) auto
    then show ?thesis by (simp add: unfold)
  qed
  have b: "record_to_plain_text dumps record = py_strip s"
    if "\<forall>k \<in> set priority_fields. \<not> is_text (dict_get record k)"
       "i < length (dict_values record)" "dict_values record ! i = PStr s" "py_strip s \<noteq> []"
       "\<forall>j<i. \<not> is_text (dict_values record ! j)"
  proof -
    have "first_text (dict_values record) = Some (py_strip s)"
      using that(2-5) by (rule first_text_at)
    with none[OF that(1)] show ?thesis by (simp add: unfold)
  qed
  have c: "record_to_plain_text dumps record = (case dumps (PDict record) of Inr js \<Rightarrow> js | Inl e \<Rightarrow> [])"
    if "\<forall>k \<in> set priority_fields. \<not> is_text (dict_get record k)"
       "\<forall>v \<in> set (dict_values record). \<not> is_text v"
  proof -
    have "first_text (dict_values record) = None" using that(2) by (simp add: first_text_None)
    with none[OF that(1)] show ?thesis by (simp add: unfold)
  qed
  have d: "record_to_plain_text dumps [(''summary'', PStr []), (''text'', PStr ''buy milk'')] = ''buy milk''"
    by (simp add: record_to_plain_text_def dict_get_def dict_get_default_def py_strip_def is_space_def)
  from a b c d show ?thesis by blast
qed

text \<open>
  The claim as the specification states it, "returns the first that is a non-empty
  string", fails on a value with surrounding whitespace: the code returns \<open>"hi"\<close> for the
  record \<open>{"text": " hi "}\<close>.
\<close>

theorem record_to_plain_text_counterexample:
  "record_to_plain_text dumps_raises [(''text'', PStr '' hi '')]
     \<noteq> plain_text_spec dumps_raises [(''text'', PStr '' hi '')]"
  by (simp add: record_to_plain_text_def plain_text_spec_def priority_fields_def dict_get_def
        dict_get_default_def py_strip_def is_space_def)

theorem record_to_plain_text_cases_witness:
  "record_to_plain_text dumps_raises [(''summary'', PStr []), (''text'', PStr '' buy milk '')] = ''buy milk''
   \<and> record_to_plain_text dumps_raises [(''summary'', PNone), (''location'', PStr '' Room 5 '')] = ''Room 5''
   \<and> record_to_plain_text dumps_raises [(''summary'', PNone), (''attendees'', PList [])] = []"
proof -
  let ?r1 = "[(''summary'', PStr []), (''text'', PStr '' buy milk '')]"
  let ?r2 = "[(''summary'', PNone), (''location'', PStr '' Room 5 '')]"
  let ?r3 = "[(''summary'', PNone), (''attendees'', PList [])]"
  have s0: "py_strip [] = []" by (simp add: py_strip_def)
  have s1: "py_strip '' buy milk '' = ''buy milk''" and s2: "py_strip '' Room 5 '' = ''Room 5''"
    by (simp_all add: py_strip_def is_space_def)
  have h1: "2 < length priority_fields \<and> dict_get ?r1 (priority_fields ! 2) = PStr '' buy milk ''
      \<and> py_strip '' buy milk '' \<noteq> []
      \<and> (\<forall>j<2. \<not> is_text (dict_get ?r1 (priority_fields ! j)))"
    by (simp add: s1 s0 priority_fields_def dict_get_def dict_get_default_def
          numeral_2_eq_2 All_less_Suc)
  have h2: "(\<forall>k \<in> set priority_fields. \<not> is_text (dict_get ?r2 k))
      \<and> 1 < length (dict_values ?r2) \<and> dict_values ?r2 ! 1 = PStr '' Room 5 ''
      \<and> py_strip '' Room 5 '' \<noteq> []
      \<and> (\<forall>j<1. \<not> is_text (dict_values ?r2 ! j))"
    by (simp add: s2 priority_fields_def dict_get_def dict_get_default_def dict_values_def)
  have h3: "(\<forall>k \<in> set priority_fields. \<not> is_text (dict_get ?r3 k))
      \<and> (\<forall>v \<in> set (dict_values ?r3). \<not> is_text v)"
    by (simp add: priority_fields_def dict_get_def dict_get_default_def dict_values_def)
  from h1 record_to_plain_text_cases [of 2 ?r1 "'' buy milk ''" dumps_raises]
  have "record_to_plain_text dumps_raises ?r1 = py_strip '' buy milk ''" by blast
  moreover from h2 record_to_plain_text_cases [of 1 ?r2 "'' Room 5 ''" dumps_raises]
  have "record_to_plain_text dumps_raises ?r2 = py_strip '' Room 5 ''" by blast
  moreover from h3 record_to_plain_text_cases [of 0 ?r3 "[]" dumps_raises]
  have "record_to_plain_text dumps_raises ?r3
          = (case dumps_raises (PDict ?r3) of Inr js \<Rightarrow> js | Inl e \<Rightarrow> [])" by blast
  ultimately show ?thesis by (simp add: s1 s2 dumps_raises_def)
qed

section \<open>Properties of the calendar time normalisation\<close>

text \<open>
  Claim C3. \<open>_to_utc\<close> maps \<open>"2024-01-01T10:00:00+02:00"\<close> to
  \<open>"2024-01-01T08:00:00+00:00"\<close>; for every string on which the parser raises it returns
  the string unchanged; and it never raises: whatever exception a statement of its
  \<open>try\<close> block raises, on a string or on any other value, the result is the argument.
\<close>

theorem to_utc_normalises:
  "to_utc fromisoformat_extended (PStr ''2024-01-01T10:00:00+02:00'')
     = PStr ''2024-01-01T08:00:00+00:00''
   \<and> (parse s = Inl e \<longrightarrow> to_utc parse (PStr s) = PStr s)
   \<and> (to_utc_try parse v = Inl e' \<longrightarrow> to_utc parse v = v)"
proof (intro conjI impI)
  show "to_utc fromisoformat_extended (PStr ''2024-01-01T10:00:00+02:00'')
     = PStr ''2024-01-01T08:00:00+00:00''"
    by code_simp
next
  assume "parse s = Inl e"
  then show "to_utc parse (PStr s) = PStr s"
    by (simp add: to_utc_def to_utc_try_def)
next
  assume "to_utc_try parse v = Inl e'"
  then show "to_utc parse v = v"
    by (simp add: to_utc_def)
qed

lemma not_a_date: "fromisoformat_extended ''next tuesday'' = Inl ValueError"
  by code_simp

lemma year_zero: "to_utc_try fromisoformat_extended (PStr ''0001-01-01T00:00:00+02:00'') = Inl OverflowError"
  by code_simp

theorem to_utc_normalises_witness:
  "fromisoformat_extended ''next tuesday'' = Inl ValueError
   \<and> to_utc fromisoformat_extended (PStr ''next tuesday'') = PStr ''next tuesday''
   \<and> to_utc_try fromisoformat_extended (PStr ''0001-01-01T00:00:00+02:00'') = Inl OverflowError
   \<and> to_utc fromisoformat_extended (PStr ''0001-01-01T00:00:00+02:00'')
       = PStr ''0001-01-01T00:00:00+02:00''"
  using to_utc_normalises [of fromisoformat_extended "''next tuesday''" ValueError
          "PStr ''0001-01-01T00:00:00+02:00''" OverflowError]
        not_a_date year_zero
  by blast

section \<open>One iteration of the ingestion loop\<close>

lemma store_calls_append: "store_calls (xs @ ys) = store_calls xs @ store_calls ys"
  by (induction xs rule: store_calls.induct) auto

lemma filter_is_get_append_add: "filter is_get (xs @ [AddMemory c]) = filter is_get xs"
  by simp

lemma fetch_memories_facts:
  "processed (fetch_memories env u st) = processed st"
  "stored (fetch_memories env u st) = stored st"
  "occurrence_counts (fetch_memories env u st) = occurrence_counts st"
  "derived (fetch_memories env u st) = derived st"
  "memories_cache (fetch_memories env u st) \<noteq> None"
  "store_calls (mem_calls (fetch_memories env u st)) = store_calls (mem_calls st)"
  by (auto simp: fetch_memories_def store_calls_append split: option.splits prod.splits sum.splits)

lemma fetch_memories_calls:
  "mem_calls (fetch_memories env u st) =
     mem_calls st @ (if memories_cache st = None then [GetMemories u] else [])"
  by (auto simp: fetch_memories_def split: option.splits prod.splits sum.splits)

lemma fetch_memories_cached:
  "memories_cache st = Some ms \<Longrightarrow> fetch_memories env u st = st"
  by (simp add: fetch_memories_def)

lemma fetch_memories_cache:
  "memories_cache (fetch_memories env u st) =
     (case memories_cache st of
        Some ms \<Rightarrow> Some ms
      | None \<Rightarrow> Some (case fst (env_get_memories env u (world st)) of Inr ms \<Rightarrow> ms | Inl e \<Rightarrow> []))"
  by (auto simp: fetch_memories_def split: option.splits prod.splits sum.splits)

lemma store_text_facts:
  assumes "store_text env connector cfg u md text st = (r, st')"
  shows "processed st' = processed st"
    and "memories_cache st' = memories_cache st"
    and "occurrence_counts st' = fun_upd (occurrence_counts st) text (Some ((case occurrence_counts st text of None \<Rightarrow> 0 | Some c \<Rightarrow> c) + 1))"
    and "derived st' = derived st @ [(text, dict_set md ''occurrence_count'' (PInt ((case occurrence_counts st text of None \<Rightarrow> 0 | Some c \<Rightarrow> c) + 1)))]"
    and "filter is_get (mem_calls st') = filter is_get (mem_calls st)"
  using assms
  by (auto simp: store_text_def Let_def split: option.splits prod.splits sum.splits if_splits)

lemma store_text_stored:
  assumes "store_text env connector cfg u md text st = (r, st')"
  shows "(\<exists>c. mem_calls st' = mem_calls st @ [AddMemory c]
              \<and> map fst (sc_metadata c) = [''connector'', ''source'', ''record_id'', ''timestamp'']
              \<and> sc_text c = text \<and> \<not> cfg_dry_run cfg
              \<and> (r = None \<and> stored st' = stored st + 1 \<or> r \<noteq> None \<and> stored st' = stored st))
         \<or> (mem_calls st' = mem_calls st \<and> stored st' = stored st)"
  using assms
  by (auto simp: store_text_def Let_def split: option.splits prod.splits sum.splits if_splits)

lemma store_text_dry:
  assumes "store_text env connector cfg u md text st = (r, st')" "cfg_dry_run cfg"
  shows "mem_calls st' = mem_calls st" "stored st' = stored st"
  using assms
  by (auto simp: store_text_def Let_def split: option.splits prod.splits sum.splits if_splits)

lemma ingest_record_cases:
  assumes "ingest_record env connector cfg it st = (r, st')"
  obtains (skip) u where
      "processed st' = processed st + 1" "stored st' = stored st"
      "mem_calls st' = mem_calls (fetch_memories env u st)"
      "memories_cache st' = memories_cache (fetch_memories env u st)"
      "occurrence_counts st' = occurrence_counts st" "derived st' = derived st"
    | (reaches) u md tx st1 where
      "processed st1 = processed st + 1" "stored st1 = stored st"
      "mem_calls st1 = mem_calls (fetch_memories env u st)"
      "memories_cache st1 = memories_cache (fetch_memories env u st)"
      "occurrence_counts st1 = occurrence_counts st" "derived st1 = derived st"
      "tx \<noteq> []"
      "store_text env connector cfg u md tx st1 = (r, st')"
proof -
  let ?u = "py_or (py_or (PStr (cfg_user_id cfg)) (dict_get (snd it) ''user_id'')) (PStr ''demo_user'')"
  let ?md = "dict_set (snd it) ''user_id'' ?u"
  let ?st = "fetch_memories env ?u (st\<lparr>processed := processed st + 1\<rparr>)"
  let ?pm = "select_context_mems (fst it) (case memories_cache ?st of None \<Rightarrow> [] | Some ms \<Rightarrow> ms) 3"
  obtain d w where d: "derive_text env connector cfg (fst it) ?pm (world ?st) = (d, w)"
    by (cases "derive_text env connector cfg (fst it) ?pm (world ?st)")
  have f: "processed ?st = processed st + 1" "stored ?st = stored st"
    "occurrence_counts ?st = occurrence_counts st" "derived ?st = derived st"
    by (simp_all add: fetch_memories_facts)
  have g: "mem_calls ?st = mem_calls (fetch_memories env ?u st)"
    "memories_cache ?st = memories_cache (fetch_memories env ?u st)"
    by (auto simp: fetch_memories_def split: option.splits prod.splits sum.splits)
  show thesis
  proof (cases d)
    case (Inl e)
    with assms d have "st' = ?st\<lparr>world := w\<rparr>"
      by (simp add: ingest_record_def Let_def)
    with f g show thesis by (intro skip[of ?u]) simp_all
  next
    case (Inr o1)
    show thesis
    proof (cases o1)
      case None
      with Inr assms d have "st' = ?st\<lparr>world := w\<rparr>"
        by (simp add: ingest_record_def Let_def)
      with f g show thesis by (intro skip[of ?u]) simp_all
    next
      case (Some tx)
      with Inr assms d have s: "store_text env connector cfg ?u ?md tx (?st\<lparr>world := w\<rparr>) = (r, st')"
        by (simp add: ingest_record_def Let_def)
      have ne: "tx \<noteq> []"
        using d Inr Some
        by (auto simp: derive_text_def Let_def split: if_splits prod.splits sum.splits)
      show thesis
        by (rule reaches[of "?st\<lparr>world := w\<rparr>" ?u tx ?md]) (use f g ne s in simp_all)
    qed
  qed
qed

end
